theory Spec2Isabelle
  imports Complex_Main "HOL-Library.Word"
begin

section \<open>Floating-point values\<close>

text \<open>
  The metrics code computes with Python and numpy floats and tests them with
  \<^verbatim>\<open>np.isfinite\<close>, so the value type has the three non-finite values beside the
  finite ones. A finite value is a real number: arithmetic on finite values is exact
  (no rounding, no overflow, one zero), and the non-finite values follow IEEE 754.
\<close>

datatype pyfloat = Fin real | PInf | NInf | NaN

fun isfinite :: "pyfloat \<Rightarrow> bool" where
  "isfinite (Fin x) = True"
| "isfinite PInf = False"
| "isfinite NInf = False"
| "isfinite NaN = False"

text \<open>Comparisons: every comparison with a not-a-number is false.\<close>

fun f_lt :: "pyfloat \<Rightarrow> pyfloat \<Rightarrow> bool" where
  "f_lt (Fin a) (Fin b) = (a < b)"
| "f_lt (Fin a) PInf = True"
| "f_lt (Fin a) NInf = False"
| "f_lt (Fin a) NaN = False"
| "f_lt PInf b = False"
| "f_lt NInf (Fin b) = True"
| "f_lt NInf PInf = True"
| "f_lt NInf NInf = False"
| "f_lt NInf NaN = False"
| "f_lt NaN b = False"

fun f_le :: "pyfloat \<Rightarrow> pyfloat \<Rightarrow> bool" where
  "f_le (Fin a) (Fin b) = (a \<le> b)"
| "f_le (Fin a) PInf = True"
| "f_le (Fin a) NInf = False"
| "f_le (Fin a) NaN = False"
| "f_le PInf (Fin b) = False"
| "f_le PInf PInf = True"
| "f_le PInf NInf = False"
| "f_le PInf NaN = False"
| "f_le NInf (Fin b) = True"
| "f_le NInf PInf = True"
| "f_le NInf NInf = True"
| "f_le NInf NaN = False"
| "f_le NaN b = False"

definition f_gt :: "pyfloat \<Rightarrow> pyfloat \<Rightarrow> bool" where
  "f_gt a b = f_lt b a"

definition f_ge :: "pyfloat \<Rightarrow> pyfloat \<Rightarrow> bool" where
  "f_ge a b = f_le b a"

text \<open>Arithmetic: \<open>inf - inf\<close>, \<open>0 * inf\<close> and \<open>inf / inf\<close> are not-a-number.\<close>

fun f_neg :: "pyfloat \<Rightarrow> pyfloat" where
  "f_neg (Fin a) = Fin (- a)"
| "f_neg PInf = NInf"
| "f_neg NInf = PInf"
| "f_neg NaN = NaN"

fun f_add :: "pyfloat \<Rightarrow> pyfloat \<Rightarrow> pyfloat" where
  "f_add (Fin a) (Fin b) = Fin (a + b)"
| "f_add (Fin a) PInf = PInf"
| "f_add (Fin a) NInf = NInf"
| "f_add (Fin a) NaN = NaN"
| "f_add PInf (Fin b) = PInf"
| "f_add PInf PInf = PInf"
| "f_add PInf NInf = NaN"
| "f_add PInf NaN = NaN"
| "f_add NInf (Fin b) = NInf"
| "f_add NInf PInf = NaN"
| "f_add NInf NInf = NInf"
| "f_add NInf NaN = NaN"
| "f_add NaN b = NaN"

definition f_sub :: "pyfloat \<Rightarrow> pyfloat \<Rightarrow> pyfloat" where
  "f_sub a b = f_add a (f_neg b)"

text \<open>The product of an infinity with a finite value takes the sign of the two factors.\<close>

definition inf_signed :: "bool \<Rightarrow> pyfloat" where
  "inf_signed positive = (if positive then PInf else NInf)"

fun f_mul :: "pyfloat \<Rightarrow> pyfloat \<Rightarrow> pyfloat" where
  "f_mul (Fin a) (Fin b) = Fin (a * b)"
| "f_mul (Fin a) PInf = (if a = 0 then NaN else inf_signed (0 < a))"
| "f_mul (Fin a) NInf = (if a = 0 then NaN else inf_signed (a < 0))"
| "f_mul (Fin a) NaN = NaN"
| "f_mul PInf (Fin b) = (if b = 0 then NaN else inf_signed (0 < b))"
| "f_mul PInf PInf = PInf"
| "f_mul PInf NInf = NInf"
| "f_mul PInf NaN = NaN"
| "f_mul NInf (Fin b) = (if b = 0 then NaN else inf_signed (b < 0))"
| "f_mul NInf PInf = NInf"
| "f_mul NInf NInf = PInf"
| "f_mul NInf NaN = NaN"
| "f_mul NaN b = NaN"

text \<open>
  Division. No division of the code below has a zero divisor (the divisors are non-zero
  constants, or values the code has floored or tested to be positive), where Python
  raises and numpy gives an infinity or a not-a-number; the model gives not-a-number
  there.
\<close>

fun f_div :: "pyfloat \<Rightarrow> pyfloat \<Rightarrow> pyfloat" where
  "f_div (Fin a) (Fin b) = (if b = 0 then NaN else Fin (a / b))"
| "f_div (Fin a) PInf = Fin 0"
| "f_div (Fin a) NInf = Fin 0"
| "f_div (Fin a) NaN = NaN"
| "f_div PInf (Fin b) = (if b = 0 then NaN else inf_signed (0 < b))"
| "f_div PInf PInf = NaN"
| "f_div PInf NInf = NaN"
| "f_div PInf NaN = NaN"
| "f_div NInf (Fin b) = (if b = 0 then NaN else inf_signed (b < 0))"
| "f_div NInf PInf = NaN"
| "f_div NInf NInf = NaN"
| "f_div NInf NaN = NaN"
| "f_div NaN b = NaN"

text \<open>
  Python's built-in \<^verbatim>\<open>max(a, b)\<close> and \<^verbatim>\<open>min(a, b)\<close> keep the first argument unless
  the second is strictly greater (smaller), so a not-a-number second argument is dropped.
\<close>

definition py_max :: "pyfloat \<Rightarrow> pyfloat \<Rightarrow> pyfloat" where
  "py_max a b = (if f_gt b a then b else a)"

definition py_min :: "pyfloat \<Rightarrow> pyfloat \<Rightarrow> pyfloat" where
  "py_min a b = (if f_lt b a then b else a)"

section \<open>metrics.py: floors, calories, life expectancy\<close>

text \<open>\<^verbatim>\<open>def floors_from_gain(gain_m): return float(gain_m / 3.0)\<close>\<close>

definition floors_from_gain :: "pyfloat \<Rightarrow> pyfloat" where
  "floors_from_gain gain_m = f_div gain_m (Fin 3)"

text \<open>
  \<^verbatim>\<open>def calories_from_met(met, minutes, weight_kg):
      return float(met * 3.5 * weight_kg / 200.0 * max(0.0, minutes))\<close>
\<close>

definition calories_from_met :: "pyfloat \<Rightarrow> pyfloat \<Rightarrow> pyfloat \<Rightarrow> pyfloat" where
  "calories_from_met met minutes weight_kg =
     f_mul (f_div (f_mul (f_mul met (Fin 3.5)) weight_kg) (Fin 200))
           (py_max (Fin 0) minutes)"

text \<open>
  \<^verbatim>\<open>def estimate_life_expectancy_gain(weekly_met_min):
      w = weekly_met_min
      if not np.isfinite(w) or w <= 0: return 0.0
      if w < 150: return 0.5 * (w / 150.0)
      if w < 300: return 1.0 + (w - 150.0) / 150.0 * 2.0
      if w < 600: return 3.0 + (w - 300.0) / 300.0 * 1.2
      extra = min(w - 600.0, 900.0)
      return 4.2 + (extra / 900.0) * 2.5\<close>
\<close>

definition estimate_life_expectancy_gain :: "pyfloat \<Rightarrow> pyfloat" where
  "estimate_life_expectancy_gain weekly_met_min =
     (let w = weekly_met_min in
      if \<not> isfinite w \<or> f_le w (Fin 0) then Fin 0
      else if f_lt w (Fin 150) then f_mul (Fin 0.5) (f_div w (Fin 150))
      else if f_lt w (Fin 300) then
        f_add (Fin 1) (f_mul (f_div (f_sub w (Fin 150)) (Fin 150)) (Fin 2))
      else if f_lt w (Fin 600) then
        f_add (Fin 3) (f_mul (f_div (f_sub w (Fin 300)) (Fin 300)) (Fin 1.2))
      else
        let extra = py_min (f_sub w (Fin 600)) (Fin 900) in
        f_add (Fin 4.2) (f_mul (f_div extra (Fin 900)) (Fin 2.5)))"

section \<open>metrics.py: distance and speed from the GPS track\<close>

text \<open>Elementwise numpy functions, on one element.\<close>

definition np_radians :: "pyfloat \<Rightarrow> pyfloat" where
  "np_radians x = f_mul x (Fin (pi / 180))"

fun np_sin :: "pyfloat \<Rightarrow> pyfloat" where
  "np_sin (Fin x) = Fin (sin x)"
| "np_sin PInf = NaN"
| "np_sin NInf = NaN"
| "np_sin NaN = NaN"

fun np_cos :: "pyfloat \<Rightarrow> pyfloat" where
  "np_cos (Fin x) = Fin (cos x)"
| "np_cos PInf = NaN"
| "np_cos NInf = NaN"
| "np_cos NaN = NaN"

fun np_sqrt :: "pyfloat \<Rightarrow> pyfloat" where
  "np_sqrt (Fin x) = (if x < 0 then NaN else Fin (sqrt x))"
| "np_sqrt PInf = PInf"
| "np_sqrt NInf = NaN"
| "np_sqrt NaN = NaN"

text \<open>The angle of the point \<open>(x, y)\<close>, in \<open>(-pi, pi]\<close>; the angle of the origin is 0.\<close>

definition arctan2 :: "real \<Rightarrow> real \<Rightarrow> real" where
  "arctan2 y x =
     (if 0 < x then arctan (y / x)
      else if x < 0 then (if 0 \<le> y then arctan (y / x) + pi else arctan (y / x) - pi)
      else if 0 < y then pi / 2
      else if y < 0 then - (pi / 2)
      else 0)"

fun np_arctan2 :: "pyfloat \<Rightarrow> pyfloat \<Rightarrow> pyfloat" where
  "np_arctan2 (Fin y) (Fin x) = Fin (arctan2 y x)"
| "np_arctan2 (Fin y) PInf = Fin 0"
| "np_arctan2 (Fin y) NInf = Fin (if 0 \<le> y then pi else - pi)"
| "np_arctan2 (Fin y) NaN = NaN"
| "np_arctan2 PInf (Fin x) = Fin (pi / 2)"
| "np_arctan2 PInf PInf = Fin (pi / 4)"
| "np_arctan2 PInf NInf = Fin (3 * pi / 4)"
| "np_arctan2 PInf NaN = NaN"
| "np_arctan2 NInf (Fin x) = Fin (- (pi / 2))"
| "np_arctan2 NInf PInf = Fin (- (pi / 4))"
| "np_arctan2 NInf NInf = Fin (- (3 * pi / 4))"
| "np_arctan2 NInf NaN = NaN"
| "np_arctan2 NaN x = NaN"

text \<open>\<^verbatim>\<open>np.maximum\<close> gives not-a-number when either argument is one.\<close>

definition np_maximum :: "pyfloat \<Rightarrow> pyfloat \<Rightarrow> pyfloat" where
  "np_maximum a b = (if a = NaN \<or> b = NaN then NaN else if f_lt a b then b else a)"

text \<open>\<^verbatim>\<open>np.nansum\<close>: the sum, a not-a-number element counting as zero.\<close>

definition np_nansum :: "pyfloat list \<Rightarrow> pyfloat" where
  "np_nansum xs = foldl f_add (Fin 0) (map (\<lambda>x. if x = NaN then Fin 0 else x) xs)"

text \<open>
  \<^verbatim>\<open>def haversine_distance_km(lat1, lon1, lat2, lon2):
      R = 6371.0
      p1 = np.radians(lat1)
      p2 = np.radians(lat2)
      dphi = np.radians(lat2 - lat1)
      dl = np.radians(lon2 - lon1)
      a = np.sin(dphi / 2.0) ** 2 + np.cos(p1) * np.cos(p2) * np.sin(dl / 2.0) ** 2
      c = 2 * np.arctan2(np.sqrt(a), np.sqrt(1 - a))
      return R * c\<close>
  The function is elementwise; this is its value on one element of each array.
\<close>

definition f_sq :: "pyfloat \<Rightarrow> pyfloat" where
  "f_sq x = f_mul x x"

definition haversine_distance_km ::
  "pyfloat \<Rightarrow> pyfloat \<Rightarrow> pyfloat \<Rightarrow> pyfloat \<Rightarrow> pyfloat" where
  "haversine_distance_km lat1 lon1 lat2 lon2 =
     (let R = Fin 6371;
          p1 = np_radians lat1;
          p2 = np_radians lat2;
          dphi = np_radians (f_sub lat2 lat1);
          dl = np_radians (f_sub lon2 lon1);
          a = f_add (f_sq (np_sin (f_div dphi (Fin 2))))
                    (f_mul (f_mul (np_cos p1) (np_cos p2)) (f_sq (np_sin (f_div dl (Fin 2)))));
          c = f_mul (Fin 2) (np_arctan2 (np_sqrt a) (np_sqrt (f_sub (Fin 1) a)))
      in f_mul R c)"

text \<open>
  A row of the position table: the columns the distance code reads. The timestamp
  column is read as \<^verbatim>\<open>np.int64\<close> milliseconds.
\<close>

record sample =
  timestamp :: "64 word"
  latitude :: pyfloat
  longitude :: pyfloat

text \<open>
  \<^verbatim>\<open>def track_distance_speed_from_gps(pos):
      lat = pos['latitude'].to_numpy()
      lon = pos['longitude'].to_numpy()
      ts = pos['timestamp'].to_numpy(dtype=np.int64)
      if lat.size < 2:
          return 0.0, np.zeros_like(lat, dtype=float)
      d_km = haversine_distance_km(lat[:-1], lon[:-1], lat[1:], lon[1:])
      d_m = d_km * 1000.0
      dt_s = np.maximum(1e-6, (ts[1:] - ts[:-1]) / 1000.0)
      speed_ms = np.concatenate([[0.0], d_m / dt_s])
      total_km = float(np.nansum(d_km))
      return total_km, speed_ms\<close>
\<close>

definition track_distance_speed_from_gps :: "sample list \<Rightarrow> pyfloat \<times> pyfloat list" where
  "track_distance_speed_from_gps pos =
     (let lat = map latitude pos;
          lon = map longitude pos;
          ts = map timestamp pos
      in if length lat < 2 then (Fin 0, replicate (length lat) (Fin 0))
         else
           let d_km = map (\<lambda>((la1, lo1), (la2, lo2)). haversine_distance_km la1 lo1 la2 lo2)
                          (zip (zip (butlast lat) (butlast lon)) (zip (tl lat) (tl lon)));
               d_m = map (\<lambda>d. f_mul d (Fin 1000)) d_km;
               dt_s = map (\<lambda>(t1, t0).
                             np_maximum (Fin (1 / 10 ^ 6))
                               (f_div (Fin (real_of_int (sint (t1 - t0)))) (Fin 1000)))
                          (zip (tl ts) (butlast ts));
               speed_ms = Fin 0 # map (\<lambda>(d, t). f_div d t) (zip d_m dt_s);
               total_km = np_nansum d_km
           in (total_km, speed_ms))"

text \<open>
  \<^verbatim>\<open>def met_for_activity(activity, avg_speed_kmh_val):
      if activity == 'sitting/idle': return 1.5
      if activity == 'walking': return max(3.0, min(5.0, 3.0 + 0.4 * (avg_speed_kmh_val - 3)))
      if activity == 'running': return max(7.0, min(12.0, 6.0 + 0.6 * avg_speed_kmh_val))
      if activity == 'cycling': return max(6.0, min(12.0, 2.0 + 0.5 * avg_speed_kmh_val))
      if activity == 'stairs': return 8.0
      return 3.5\<close>
\<close>

definition met_for_activity :: "string \<Rightarrow> pyfloat \<Rightarrow> pyfloat" where
  "met_for_activity activity avg_speed_kmh_val =
     (if activity = ''sitting/idle'' then Fin 1.5
      else if activity = ''walking'' then
        py_max (Fin 3)
          (py_min (Fin 5) (f_add (Fin 3) (f_mul (Fin 0.4) (f_sub avg_speed_kmh_val (Fin 3)))))
      else if activity = ''running'' then
        py_max (Fin 7) (py_min (Fin 12) (f_add (Fin 6) (f_mul (Fin 0.6) avg_speed_kmh_val)))
      else if activity = ''cycling'' then
        py_max (Fin 6) (py_min (Fin 12) (f_add (Fin 2) (f_mul (Fin 0.5) avg_speed_kmh_val)))
      else if activity = ''stairs'' then Fin 8
      else Fin 3.5)"

section \<open>activity.py: classification by speed, forecast\<close>

text \<open>
  \<^verbatim>\<open>def guess_activity(avg_speed_kmh):
      if not np.isfinite(avg_speed_kmh) or avg_speed_kmh < 1.5: return 'sitting/idle'
      if avg_speed_kmh < 6.0: return 'walking'
      if avg_speed_kmh < 12.0: return 'running'
      return 'cycling'\<close>
\<close>

definition guess_activity :: "pyfloat \<Rightarrow> string" where
  "guess_activity avg_speed_kmh =
     (if \<not> isfinite avg_speed_kmh \<or> f_lt avg_speed_kmh (Fin 1.5) then ''sitting/idle''
      else if f_lt avg_speed_kmh (Fin 6) then ''walking''
      else if f_lt avg_speed_kmh (Fin 12) then ''running''
      else ''cycling'')"

text \<open>
  \<^verbatim>\<open>def ema(values, alpha):
      y = np.zeros_like(values, dtype=float)
      if values.size == 0: return y
      y[0] = float(values[0])
      for i in range(1, values.size):
          y[i] = alpha * float(values[i]) + (1.0 - alpha) * y[i - 1]
      return y\<close>
  The loop, with the element it wrote last.
\<close>

fun ema_loop :: "pyfloat \<Rightarrow> pyfloat \<Rightarrow> pyfloat list \<Rightarrow> pyfloat list" where
  "ema_loop alpha prev [] = []"
| "ema_loop alpha prev (v # vs) =
     (let y = f_add (f_mul alpha v) (f_mul (f_sub (Fin 1) alpha) prev)
      in y # ema_loop alpha y vs)"

definition ema :: "pyfloat list \<Rightarrow> pyfloat \<Rightarrow> pyfloat list" where
  "ema values alpha = (case values of [] \<Rightarrow> [] | v # vs \<Rightarrow> v # ema_loop alpha v vs)"

definition np_dot :: "pyfloat list \<Rightarrow> pyfloat list \<Rightarrow> pyfloat" where
  "np_dot xs ys = foldl f_add (Fin 0) (map (\<lambda>(x, y). f_mul x y) (zip xs ys))"

definition np_mean :: "pyfloat list \<Rightarrow> pyfloat" where
  "np_mean xs = f_div (foldl f_add (Fin 0) xs) (Fin (real (length xs)))"

text \<open>
  Python's \<^verbatim>\<open>round\<close> of a float gives an integer, a tie going to the even neighbour;
  it raises on a not-a-number and on an infinity.
\<close>

datatype py_error = ValueError | OverflowError

definition round_half_even :: "real \<Rightarrow> int" where
  "round_half_even x =
     (let f = \<lfloor>x\<rfloor>; d = x - of_int f
      in if d < 1 / 2 then f else if 1 / 2 < d then f + 1 else if even f then f else f + 1)"

fun py_round :: "pyfloat \<Rightarrow> py_error + int" where
  "py_round (Fin x) = Inr (round_half_even x)"
| "py_round NaN = Inl ValueError"
| "py_round PInf = Inl OverflowError"
| "py_round NInf = Inl OverflowError"

text \<open>
  \<^verbatim>\<open>for _ in range(steps): s = phi * s + (1.0 - phi) * mean_tail\<close>
\<close>

fun forecast_loop :: "nat \<Rightarrow> pyfloat \<Rightarrow> pyfloat \<Rightarrow> pyfloat \<Rightarrow> pyfloat" where
  "forecast_loop 0 phi mean_tail s = s"
| "forecast_loop (Suc n) phi mean_tail s =
     forecast_loop n phi mean_tail (f_add (f_mul phi s) (f_mul (f_sub (Fin 1) phi) mean_tail))"

text \<open>
  \<^verbatim>\<open>def predict_speed_next_kmh(speed_kmh, dt_sec, horizon_sec=30):
      if speed_kmh.size < 6 or dt_sec <= 0: return float('nan')
      alpha = min(0.5, max(0.05, dt_sec / 5.0))
      smooth = ema(speed_kmh, alpha)
      x = smooth[1:]
      y = smooth[:-1]
      denom = float(np.dot(y, y)) + 1e-12
      phi = float(np.dot(y, x)) / denom
      steps = max(1, int(round(horizon_sec / max(0.1, dt_sec))))
      s = float(smooth[-1])
      mean_tail = float(np.mean(smooth[max(0, smooth.size - 50):]))
      for _ in range(steps):
          s = phi * s + (1.0 - phi) * mean_tail
      return max(0.0, s)\<close>
  The horizon is an integer number of seconds. Dividing it by a float converts it to a
  float first, which raises when the integer is too large: when it rounds to \<open>2 ^ 1024\<close>
  or beyond.
\<close>

definition int_to_float :: "int \<Rightarrow> py_error + pyfloat" where
  "int_to_float i =
     (if \<bar>i\<bar> < 2 ^ 1024 - 2 ^ 970 then Inr (Fin (of_int i)) else Inl OverflowError)"

definition predict_speed_next_kmh :: "pyfloat list \<Rightarrow> pyfloat \<Rightarrow> int \<Rightarrow> py_error + pyfloat" where
  "predict_speed_next_kmh speed_kmh dt_sec horizon_sec =
     (if length speed_kmh < 6 \<or> f_le dt_sec (Fin 0) then Inr NaN
      else
        let alpha = py_min (Fin 0.5) (py_max (Fin 0.05) (f_div dt_sec (Fin 5)));
            smooth = ema speed_kmh alpha;
            x = tl smooth;
            y = butlast smooth;
            denom = f_add (np_dot y y) (Fin (1 / 10 ^ 12));
            phi = f_div (np_dot y x) denom
        in case int_to_float horizon_sec of
             Inl e \<Rightarrow> Inl e
           | Inr horizon \<Rightarrow>
               (case py_round (f_div horizon (py_max (Fin 0.1) dt_sec)) of
                  Inl e \<Rightarrow> Inl e
                | Inr k \<Rightarrow>
                    let steps = max 1 k;
                        s = last smooth;
                        mean_tail = np_mean (drop (length smooth - 50) smooth)
                    in Inr (py_max (Fin 0) (forecast_loop (nat steps) phi mean_tail s))))"

section \<open>app.py: the label and the MET of a session\<close>

text \<open>
  \<^verbatim>\<open>floors_per_min = (floors / minutes) if minutes > 0 else 0.0
  if np.isfinite(floors_per_min) and floors_per_min >= 1.0 and (not np.isfinite(avg_kmh) or avg_kmh < 6.0):
      act_raw = 'stairs'
  else:
      act_raw = guess_activity(avg_kmh)\<close>
\<close>

definition floors_per_min :: "pyfloat \<Rightarrow> pyfloat \<Rightarrow> pyfloat" where
  "floors_per_min floors minutes = (if f_gt minutes (Fin 0) then f_div floors minutes else Fin 0)"

definition act_raw :: "pyfloat \<Rightarrow> pyfloat \<Rightarrow> string" where
  "act_raw avg_kmh fpm =
     (if isfinite fpm \<and> f_ge fpm (Fin 1) \<and> (\<not> isfinite avg_kmh \<or> f_lt avg_kmh (Fin 6))
      then ''stairs''
      else guess_activity avg_kmh)"

text \<open>
  \<^verbatim>\<open>str.strip\<close> and \<^verbatim>\<open>str.lower\<close>, on ASCII strings (every label of the code is one):
  the white space characters are the space, the controls 9 to 13 and the separators
  28 to 31.
\<close>

definition is_space :: "char \<Rightarrow> bool" where
  "is_space c = (c \<in> set [CHR '' '', CHR 0x09, CHR 0x0A, CHR 0x0B, CHR 0x0C, CHR 0x0D,
                           CHR 0x1C, CHR 0x1D, CHR 0x1E, CHR 0x1F])"

definition py_strip :: "string \<Rightarrow> string" where
  "py_strip s = rev (dropWhile is_space (rev (dropWhile is_space s)))"

definition lower_char :: "char \<Rightarrow> char" where
  "lower_char c =
     (case map_of (zip ''ABCDEFGHIJKLMNOPQRSTUVWXYZ'' ''abcdefghijklmnopqrstuvwxyz'') c of
        Some l \<Rightarrow> l
      | None \<Rightarrow> c)"

definition py_lower :: "string \<Rightarrow> string" where
  "py_lower s = map lower_char s"

text \<open>
  \<^verbatim>\<open>def normalize_activity(name):
      n = (name or '').strip().lower()
      if n in ('stairs', 'stair', 'stairclimb', 'stair climbing'): return 'stairs'
      if n in ('running', 'run', 'jogging'): return 'running'
      if n in ('walking', 'walk'): return 'walking'
      if n in ('sitting/idle', 'idle', 'rest', 'sitting'): return 'sitting'
      return 'walking'\<close>
\<close>

definition normalize_activity :: "string \<Rightarrow> string" where
  "normalize_activity name =
     (let n = py_lower (py_strip name) in
      if n \<in> set [''stairs'', ''stair'', ''stairclimb'', ''stair climbing''] then ''stairs''
      else if n \<in> set [''running'', ''run'', ''jogging''] then ''running''
      else if n \<in> set [''walking'', ''walk''] then ''walking''
      else if n \<in> set [''sitting/idle'', ''idle'', ''rest'', ''sitting''] then ''sitting''
      else ''walking'')"

text \<open>
  The label and the MET of a session, from its average speed, floors and minutes:
  \<^verbatim>\<open>act = normalize_activity(act_raw)
  met = met_for_activity(act, avg_kmh)\<close>
\<close>

definition session_act :: "pyfloat \<Rightarrow> pyfloat \<Rightarrow> pyfloat \<Rightarrow> string" where
  "session_act avg_kmh floors minutes =
     normalize_activity (act_raw avg_kmh (floors_per_min floors minutes))"

definition session_met :: "pyfloat \<Rightarrow> pyfloat \<Rightarrow> pyfloat \<Rightarrow> pyfloat" where
  "session_met avg_kmh floors minutes =
     met_for_activity (session_act avg_kmh floors minutes) avg_kmh"

section \<open>One-sided limits of a curve\<close>

text \<open>
  The curve \<open>f\<close>, read on finite arguments, tends to \<open>l\<close> as the argument tends to
  \<open>a\<close> from below (from above).
\<close>

definition approaches_below :: "(pyfloat \<Rightarrow> pyfloat) \<Rightarrow> real \<Rightarrow> real \<Rightarrow> bool" where
  "approaches_below f a l =
     (\<forall>\<epsilon>>0. \<exists>\<delta>>0. \<forall>w. a - \<delta> < w \<and> w < a \<longrightarrow>
        (\<exists>r. f (Fin w) = Fin r \<and> \<bar>r - l\<bar> < \<epsilon>))"

definition approaches_above :: "(pyfloat \<Rightarrow> pyfloat) \<Rightarrow> real \<Rightarrow> real \<Rightarrow> bool" where
  "approaches_above f a l =
     (\<forall>\<epsilon>>0. \<exists>\<delta>>0. \<forall>w. a < w \<and> w < a + \<delta> \<longrightarrow>
        (\<exists>r. f (Fin w) = Fin r \<and> \<bar>r - l\<bar> < \<epsilon>))"

section \<open>Auxiliary facts\<close>


text \<open>The life-expectancy curve on a finite argument, segment by segment.\<close>

lemma gain_fin:
  "estimate_life_expectancy_gain (Fin w) =
     Fin (if w \<le> 0 then 0
          else if w < 150 then 0.5 * (w / 150)
          else if w < 300 then 1 + (w - 150) / 150 * 2
          else if w < 600 then 3 + (w - 300) / 300 * 1.2
          else 4.2 + (min (w - 600) 900 / 900) * 2.5)"
  by (simp add: estimate_life_expectancy_gain_def py_min_def f_sub_def min_def)

lemma gain_first_segment:
  "0 < w \<Longrightarrow> w < 150 \<Longrightarrow> estimate_life_expectancy_gain (Fin w) = Fin (w / 300)"
  by (simp add: gain_fin)

lemma gain_second_segment:
  "150 \<le> w \<Longrightarrow> w < 300 \<Longrightarrow>
     estimate_life_expectancy_gain (Fin w) = Fin (1 + (w - 150) / 150 * 2)"
  by (simp add: gain_fin)

lemma gain_monotone_fin:
  "0 < w1 \<Longrightarrow> w1 \<le> w2 \<Longrightarrow> w2 \<le> 1500 \<Longrightarrow>
     f_le (estimate_life_expectancy_gain (Fin w1)) (estimate_life_expectancy_gain (Fin w2))"
  unfolding gain_fin by (auto simp: min_def field_simps)

lemma gain_saturated_fin: "1500 \<le> w \<Longrightarrow> estimate_life_expectancy_gain (Fin w) = Fin 6.7"
  unfolding gain_fin by (simp add: min_def)







lemma fixed_point_step:
  "f_add (f_mul (Fin p) (Fin c)) (f_mul (f_sub (Fin 1) (Fin p)) (Fin c)) = Fin c"
  by (simp add: f_sub_def algebra_simps)







section \<open>The claims\<close>

text \<open>
  C5. For every speed series and every sample interval, not-a-number and infinite ones
  included: when the series has fewer than 6 elements or \<open>dt_sec \<le> 0\<close>,
  \<open>predict_speed_next_kmh\<close> returns the not-a-number sentinel (and raises nothing).
\<close>

theorem predict_insufficient_nan:
  "length speed_kmh < 6 \<or> f_le dt_sec (Fin 0) \<Longrightarrow>
     predict_speed_next_kmh speed_kmh dt_sec horizon_sec = Inr NaN"
  by (auto simp: predict_speed_next_kmh_def)

theorem predict_insufficient_nan_witness:
  "predict_speed_next_kmh [Fin 1, Fin 2, Fin 3, Fin 4, Fin 5] (Fin 1) 30 = Inr NaN \<and>
   predict_speed_next_kmh [Fin 1, Fin 2, Fin 3, Fin 4, Fin 5, Fin 6] (Fin 0) 30 = Inr NaN \<and>
   predict_speed_next_kmh [Fin 1, Fin 2, Fin 3, Fin 4, Fin 5, Fin 6] NInf 30 = Inr NaN"
  using predict_insufficient_nan [of "[Fin 1, Fin 2, Fin 3, Fin 4, Fin 5]" "Fin 1" 30]
    predict_insufficient_nan [of "[Fin 1, Fin 2, Fin 3, Fin 4, Fin 5, Fin 6]" "Fin 0" 30]
    predict_insufficient_nan [of "[Fin 1, Fin 2, Fin 3, Fin 4, Fin 5, Fin 6]" NInf 30]
  by simp

text \<open>
  C9. For every track with fewer than 2 samples (empty, or one sample),
  \<open>track_distance_speed_from_gps\<close> returns the total distance 0.0 and a speed series of
  zeros as long as the track.
\<close>

theorem track_short_zero:
  "length pos < 2 \<Longrightarrow>
     track_distance_speed_from_gps pos = (Fin 0, replicate (length pos) (Fin 0))"
  by (simp add: track_distance_speed_from_gps_def)

theorem track_short_zero_witness:
  "track_distance_speed_from_gps [] = (Fin 0, []) \<and>
   track_distance_speed_from_gps
     [\<lparr>timestamp = 1000, latitude = Fin 48, longitude = Fin 2\<rparr>] = (Fin 0, [Fin 0])"
  using track_short_zero [of "[]"]
    track_short_zero [of "[\<lparr>timestamp = 1000, latitude = Fin 48, longitude = Fin 2\<rparr>]"]
  by simp

text \<open>
  C10. For every finite coordinate pair, so for every valid one (latitude in
  \<open>[-90, 90]\<close>, any longitude, the poles and the antimeridian included), the haversine
  distance from the point to itself is 0.
\<close>

theorem haversine_same_point_zero:
  "haversine_distance_km (Fin lat) (Fin lon) (Fin lat) (Fin lon) = Fin 0"
  by (simp add: haversine_distance_km_def np_radians_def f_sub_def f_sq_def arctan2_def)

text \<open>
  C1, as the code has it. \<open>estimate_life_expectancy_gain\<close> returns exactly 1.0 at the
  segment boundary \<open>w = 150\<close>, and it is continuous there from the right only: the
  values of the \<open>[0, 150)\<close> segment, \<open>0.5 * w / 150\<close>, approach 0.5 as \<open>w\<close> approaches 150
  from below, and the values of the \<open>[150, 300)\<close> segment approach 1.0 as \<open>w\<close> approaches
  150 from above. The curve jumps by 0.5 at 150.
\<close>

theorem life_gain_at_150_jump:
  "estimate_life_expectancy_gain (Fin 150) = Fin 1 \<and>
   approaches_below estimate_life_expectancy_gain 150 (1 / 2) \<and>
   approaches_above estimate_life_expectancy_gain 150 1"
proof (intro conjI)
  show "estimate_life_expectancy_gain (Fin 150) = Fin 1"
    by (simp add: gain_fin)
  show "approaches_below estimate_life_expectancy_gain 150 (1 / 2)"
    unfolding approaches_below_def
  proof (intro allI impI)
    fix \<epsilon> :: real
    assume e: "0 < \<epsilon>"
    define \<delta> where "\<delta> = min 150 (300 * \<epsilon>)"
    have "0 < \<delta>"
      using e by (simp add: \<delta>_def)
    moreover have "\<exists>r. estimate_life_expectancy_gain (Fin w) = Fin r \<and> \<bar>r - 1 / 2\<bar> < \<epsilon>"
      if "150 - \<delta> < w \<and> w < 150" for w
    proof -
      have "0 < w" "w < 150"
        using that by (auto simp: \<delta>_def)
      then have "estimate_life_expectancy_gain (Fin w) = Fin (w / 300)"
        by (rule gain_first_segment)
      moreover have "\<bar>w / 300 - 1 / 2\<bar> < \<epsilon>"
        using that by (auto simp: \<delta>_def abs_if)
      ultimately show ?thesis by blast
    qed
    ultimately show "\<exists>\<delta>>0. \<forall>w. 150 - \<delta> < w \<and> w < 150 \<longrightarrow>
        (\<exists>r. estimate_life_expectancy_gain (Fin w) = Fin r \<and> \<bar>r - 1 / 2\<bar> < \<epsilon>)"
      by blast
  qed
  show "approaches_above estimate_life_expectancy_gain 150 1"
    unfolding approaches_above_def
  proof (intro allI impI)
    fix \<epsilon> :: real
    assume e: "0 < \<epsilon>"
    define \<delta> where "\<delta> = min 150 (75 * \<epsilon>)"
    have "0 < \<delta>"
      using e by (simp add: \<delta>_def)
    moreover have "\<exists>r. estimate_life_expectancy_gain (Fin w) = Fin r \<and> \<bar>r - 1\<bar> < \<epsilon>"
      if "150 < w \<and> w < 150 + \<delta>" for w
    proof -
      have "150 \<le> w" "w < 300"
        using that by (auto simp: \<delta>_def)
      then have "estimate_life_expectancy_gain (Fin w) = Fin (1 + (w - 150) / 150 * 2)"
        by (rule gain_second_segment)
      moreover have "\<bar>1 + (w - 150) / 150 * 2 - 1\<bar> < \<epsilon>"
        using that by (auto simp: \<delta>_def abs_if)
      ultimately show ?thesis by blast
    qed
    ultimately show "\<exists>\<delta>>0. \<forall>w. 150 < w \<and> w < 150 + \<delta> \<longrightarrow>
        (\<exists>r. estimate_life_expectancy_gain (Fin w) = Fin r \<and> \<bar>r - 1\<bar> < \<epsilon>)"
      by blast
  qed
qed

theorem life_gain_at_150_jump_witness:
  "estimate_life_expectancy_gain (Fin 150) = Fin 1 \<and>
   (\<exists>\<delta>>0. \<exists>r. estimate_life_expectancy_gain (Fin (150 - \<delta> / 2)) = Fin r \<and>
      \<bar>r - 1 / 2\<bar> < 1 / 10)"
proof -
  have below: "approaches_below estimate_life_expectancy_gain 150 (1 / 2)"
    using life_gain_at_150_jump by simp
  have "(0::real) < 1 / 10" by simp
  with below obtain \<delta> where d: "0 < \<delta>"
    and h: "\<forall>w. 150 - \<delta> < w \<and> w < 150 \<longrightarrow>
              (\<exists>r. estimate_life_expectancy_gain (Fin w) = Fin r \<and> \<bar>r - 1 / 2\<bar> < 1 / 10)"
    unfolding approaches_below_def by blast
  have "150 - \<delta> < 150 - \<delta> / 2 \<and> 150 - \<delta> / 2 < 150"
    using d by simp
  with h have "\<exists>r. estimate_life_expectancy_gain (Fin (150 - \<delta> / 2)) = Fin r \<and>
      \<bar>r - 1 / 2\<bar> < 1 / 10"
    by blast
  with d life_gain_at_150_jump show ?thesis by blast
qed

text \<open>
  The claim as it was stated fails: the value at 150 is 1.0, the value at 149 is
  \<open>149 / 300 < 0.5\<close>, and the values on \<open>[0, 150)\<close> do not approach 1.0 from below.
\<close>

theorem life_gain_left_continuity_counterexample:
  "estimate_life_expectancy_gain (Fin 150) = Fin 1 \<and>
   estimate_life_expectancy_gain (Fin 149) = Fin (149 / 300) \<and>
   \<not> approaches_below estimate_life_expectancy_gain 150 1"
proof (intro conjI)
  show "estimate_life_expectancy_gain (Fin 150) = Fin 1"
    by (simp add: gain_fin)
  show "estimate_life_expectancy_gain (Fin 149) = Fin (149 / 300)"
    by (simp add: gain_fin)
  show "\<not> approaches_below estimate_life_expectancy_gain 150 1"
  proof
    assume "approaches_below estimate_life_expectancy_gain 150 1"
    moreover have "(0::real) < 1 / 2" by simp
    ultimately obtain \<delta> where d: "0 < \<delta>"
      and h: "\<forall>w. 150 - \<delta> < w \<and> w < 150 \<longrightarrow>
                (\<exists>r. estimate_life_expectancy_gain (Fin w) = Fin r \<and> \<bar>r - 1\<bar> < 1 / 2)"
      unfolding approaches_below_def by blast
    define w where "w = max 75 (150 - \<delta> / 2)"
    have w: "150 - \<delta> < w" "w < 150" "0 < w"
      using d by (auto simp: w_def)
    with h obtain r where r: "estimate_life_expectancy_gain (Fin w) = Fin r" "\<bar>r - 1\<bar> < 1 / 2"
      by blast
    from r(1) gain_first_segment [OF w(3,2)] have "r = w / 300"
      by simp
    with r(2) w show False
      by (simp add: abs_if split: if_splits)
  qed
qed

text \<open>
  C4, as the code has it. For every average speed and every floors-per-minute value,
  the non-finite ones included, the label is \<open>stairs\<close> exactly when
  \<open>floors_per_min\<close> is finite and \<open>\<ge> 1.0\<close> and the average speed is non-finite or
  \<open>< 6.0\<close>; otherwise it is the label of the speed band (non-finite or \<open>< 1.5\<close>: idle,
  \<open>[1.5, 6.0)\<close>: walking, \<open>[6.0, 12.0)\<close>: running, \<open>\<ge> 12.0\<close>: cycling). So at a finite
  speed of 6 km/h or more the label is the running or cycling one, whatever the floors.
\<close>

theorem act_raw_stairs_iff:
  "(act_raw avg_kmh fpm = ''stairs'' \<longleftrightarrow>
      isfinite fpm \<and> f_ge fpm (Fin 1) \<and> (\<not> isfinite avg_kmh \<or> f_lt avg_kmh (Fin 6))) \<and>
   (act_raw avg_kmh fpm \<noteq> ''stairs'' \<longrightarrow>
      act_raw avg_kmh fpm =
        (if \<not> isfinite avg_kmh \<or> f_lt avg_kmh (Fin 1.5) then ''sitting/idle''
         else if f_ge avg_kmh (Fin 1.5) \<and> f_lt avg_kmh (Fin 6) then ''walking''
         else if f_ge avg_kmh (Fin 6) \<and> f_lt avg_kmh (Fin 12) then ''running''
         else ''cycling'')) \<and>
   (isfinite avg_kmh \<and> f_ge avg_kmh (Fin 6) \<longrightarrow>
      act_raw avg_kmh fpm = (if f_lt avg_kmh (Fin 12) then ''running'' else ''cycling''))"
  by (cases avg_kmh) (auto simp: act_raw_def guess_activity_def f_ge_def)

theorem act_raw_stairs_iff_witness:
  "act_raw (Fin 4) (Fin 2) = ''stairs'' \<and> act_raw NaN (Fin 2) = ''stairs'' \<and>
   act_raw (Fin 4) (Fin 0) = ''walking'' \<and>
   act_raw (Fin 8) (Fin 2) = ''running'' \<and> act_raw (Fin 15) (Fin 2) = ''cycling''"
proof -
  have s1: "act_raw (Fin 4) (Fin 2) = ''stairs''"
    using act_raw_stairs_iff [of "Fin 4" "Fin 2", THEN conjunct1] by (simp add: f_ge_def)
  have s2: "act_raw NaN (Fin 2) = ''stairs''"
    using act_raw_stairs_iff [of NaN "Fin 2", THEN conjunct1] by (simp add: f_ge_def)
  have n3: "act_raw (Fin 4) (Fin 0) \<noteq> ''stairs''"
    using act_raw_stairs_iff [of "Fin 4" "Fin 0", THEN conjunct1] by (simp add: f_ge_def)
  have s3: "act_raw (Fin 4) (Fin 0) = ''walking''"
    using act_raw_stairs_iff [of "Fin 4" "Fin 0", THEN conjunct2, THEN conjunct1, rule_format, OF n3]
    by (simp add: f_ge_def)
  have s4: "act_raw (Fin 8) (Fin 2) = ''running''"
    using act_raw_stairs_iff [of "Fin 8" "Fin 2", THEN conjunct2, THEN conjunct2]
    by (simp add: f_ge_def)
  have s5: "act_raw (Fin 15) (Fin 2) = ''cycling''"
    using act_raw_stairs_iff [of "Fin 15" "Fin 2", THEN conjunct2, THEN conjunct2]
    by (simp add: f_ge_def)
  from s1 s2 s3 s4 s5 show ?thesis by (intro conjI)
qed

text \<open>
  The claim as it was stated leaves out the test that \<open>floors_per_min\<close> is finite: at
  an infinite \<open>floors_per_min\<close> and 3 km/h its condition holds (\<open>inf \<ge> 1.0\<close> and
  \<open>3 < 6\<close>), and the label is \<open>walking\<close>.
\<close>

theorem act_raw_infinite_floors_counterexample:
  "f_ge PInf (Fin 1) \<and> f_lt (Fin 3) (Fin 6) \<and>
   act_raw (Fin 3) PInf = ''walking'' \<and> act_raw (Fin 3) PInf \<noteq> ''stairs''"
  by (simp add: act_raw_def guess_activity_def f_ge_def)

text \<open>
  C2. In a session the label goes through \<open>normalize_activity\<close> before the MET lookup.
  When the classifier's result is the idle label \<open>sitting/idle\<close>, the label becomes
  \<open>sitting\<close>, which \<open>met_for_activity\<close> does not know: the MET of the session is the
  default 3.5, not the idle constant 1.5. When the result is \<open>cycling\<close>, the label becomes
  \<open>walking\<close> and the MET is the walking formula's.
\<close>

theorem session_met_after_normalize:
  "(act_raw avg_kmh (floors_per_min floors minutes) = ''sitting/idle'' \<longrightarrow>
      session_act avg_kmh floors minutes = ''sitting'' \<and>
      session_met avg_kmh floors minutes = Fin 3.5 \<and>
      met_for_activity ''sitting/idle'' avg_kmh = Fin 1.5) \<and>
   (act_raw avg_kmh (floors_per_min floors minutes) = ''cycling'' \<longrightarrow>
      session_act avg_kmh floors minutes = ''walking'' \<and>
      session_met avg_kmh floors minutes =
        py_max (Fin 3) (py_min (Fin 5) (f_add (Fin 3) (f_mul (Fin 0.4) (f_sub avg_kmh (Fin 3))))))"
  by (auto simp: session_met_def session_act_def normalize_activity_def met_for_activity_def
        py_strip_def py_lower_def lower_char_def is_space_def)

theorem session_met_after_normalize_witness:
  "act_raw (Fin 1) (floors_per_min (Fin 0) (Fin 10)) = ''sitting/idle'' \<and>
   session_act (Fin 1) (Fin 0) (Fin 10) = ''sitting'' \<and>
   session_met (Fin 1) (Fin 0) (Fin 10) = Fin 3.5 \<and>
   act_raw (Fin 15) (floors_per_min (Fin 0) (Fin 10)) = ''cycling'' \<and>
   session_act (Fin 15) (Fin 0) (Fin 10) = ''walking'' \<and>
   session_met (Fin 15) (Fin 0) (Fin 10) = Fin 5"
proof -
  have idle: "act_raw (Fin 1) (floors_per_min (Fin 0) (Fin 10)) = ''sitting/idle''"
    by (simp add: act_raw_def floors_per_min_def guess_activity_def f_gt_def f_ge_def)
  have cyc: "act_raw (Fin 15) (floors_per_min (Fin 0) (Fin 10)) = ''cycling''"
    by (simp add: act_raw_def floors_per_min_def guess_activity_def f_gt_def f_ge_def)
  have five: "py_max (Fin 3) (py_min (Fin 5) (f_add (Fin 3) (f_mul (Fin 0.4) (f_sub (Fin 15) (Fin 3))))) = Fin 5"
    by (simp add: py_max_def py_min_def f_gt_def f_sub_def)
  note i = session_met_after_normalize [of "Fin 1" "Fin 0" "Fin 10", THEN conjunct1, rule_format, OF idle]
  note c = session_met_after_normalize [of "Fin 15" "Fin 0" "Fin 10", THEN conjunct2, rule_format, OF cyc]
  from i have i1: "session_act (Fin 1) (Fin 0) (Fin 10) = ''sitting''"
    and i2: "session_met (Fin 1) (Fin 0) (Fin 10) = Fin 3.5" by blast+
  from c have c1: "session_act (Fin 15) (Fin 0) (Fin 10) = ''walking''" by blast
  from c have "session_met (Fin 15) (Fin 0) (Fin 10) =
      py_max (Fin 3) (py_min (Fin 5) (f_add (Fin 3) (f_mul (Fin 0.4) (f_sub (Fin 15) (Fin 3)))))"
    by blast
  then have c2: "session_met (Fin 15) (Fin 0) (Fin 10) = Fin 5"
    by (simp only: five)
  from idle i1 i2 cyc c1 c2 show ?thesis by (intro conjI)
qed

text \<open>
  C3, as the code has it. \<open>floors_from_gain\<close> divides by 3 and does not clamp. For
  every \<open>gain_m \<ge> 0\<close> (the infinity included) the result equals \<open>max(0, gain_m) / 3.0\<close>.
  A negative gain stays negative: for every \<open>gain_m \<le> -3\<close> the result is \<open>\<le> -1\<close>.
  The result is not rounded to a whole number of floors: for every \<open>gain_m\<close> from 1 to
  2 it lies strictly between 0 and 1.
\<close>

theorem floors_from_gain_unclamped:
  "(f_ge gain_m (Fin 0) \<longrightarrow> floors_from_gain gain_m = f_div (py_max (Fin 0) gain_m) (Fin 3)) \<and>
   (f_le gain_m (Fin (- 3)) \<longrightarrow> f_le (floors_from_gain gain_m) (Fin (- 1))) \<and>
   (f_le (Fin 1) gain_m \<and> f_le gain_m (Fin 2) \<longrightarrow>
      f_lt (Fin 0) (floors_from_gain gain_m) \<and> f_lt (floors_from_gain gain_m) (Fin 1))"
  by (cases gain_m)
     (auto simp: floors_from_gain_def py_max_def f_gt_def f_ge_def inf_signed_def)

theorem floors_from_gain_unclamped_witness:
  "f_ge (Fin 9) (Fin 0) \<and> floors_from_gain (Fin 9) = f_div (py_max (Fin 0) (Fin 9)) (Fin 3) \<and>
   f_le (Fin (- 6)) (Fin (- 3)) \<and> f_le (floors_from_gain (Fin (- 6))) (Fin (- 1)) \<and>
   f_le (Fin 1) (Fin 1.5) \<and> f_le (Fin 1.5) (Fin 2) \<and>
   f_lt (Fin 0) (floors_from_gain (Fin 1.5)) \<and> f_lt (floors_from_gain (Fin 1.5)) (Fin 1)"
proof -
  have a: "f_ge (Fin 9) (Fin 0)" by (simp add: f_ge_def)
  have b: "f_le (Fin (- 6)) (Fin (- 3))" by simp
  have c: "f_le (Fin 1) (Fin 1.5) \<and> f_le (Fin 1.5) (Fin 2)" by simp
  note t1 = floors_from_gain_unclamped [of "Fin 9", THEN conjunct1, rule_format, OF a]
  note t2 = floors_from_gain_unclamped [of "Fin (- 6)", THEN conjunct2, THEN conjunct1, rule_format, OF b]
  note t3 = floors_from_gain_unclamped [of "Fin 1.5", THEN conjunct2, THEN conjunct2, rule_format, OF c]
  from a b c t1 t2 t3 show ?thesis by blast
qed

text \<open>
  The claim as it was stated fails on a negative gain: at \<open>gain_m = -3.0\<close> the code
  returns \<open>-1.0\<close>, and \<open>max(0, gain_m) / 3.0\<close> is \<open>0.0\<close>.
\<close>

theorem floors_from_gain_negative_counterexample:
  "floors_from_gain (Fin (- 3)) = Fin (- 1) \<and>
   f_div (py_max (Fin 0) (Fin (- 3))) (Fin 3) = Fin 0 \<and>
   floors_from_gain (Fin (- 3)) \<noteq> f_div (py_max (Fin 0) (Fin (- 3))) (Fin 3)"
  by (simp add: floors_from_gain_def py_max_def f_gt_def)

text \<open>
  C7, as the code has it. For \<open>met\<close> and \<open>weight_kg\<close> that are non-negative and at most
  \<open>10 ^ 100\<close> (so that their product cannot overflow a double) and every finite
  \<open>minutes \<ge> 0\<close>, the calories are \<open>\<ge> 0\<close>.
\<close>

theorem calories_nonneg_bounded:
  "0 \<le> met \<and> met \<le> 10 ^ 100 \<and> 0 \<le> weight_kg \<and> weight_kg \<le> 10 ^ 100 \<and> 0 \<le> minutes \<Longrightarrow>
     f_ge (calories_from_met (Fin met) (Fin minutes) (Fin weight_kg)) (Fin 0)"
  by (auto simp: calories_from_met_def py_max_def f_gt_def f_ge_def)

theorem calories_nonneg_bounded_witness:
  "(0::real) \<le> 3.8 \<and> (3.8::real) \<le> 10 ^ 100 \<and> (0::real) \<le> 75 \<and> (75::real) \<le> 10 ^ 100 \<and>
   (0::real) \<le> 30 \<and> f_ge (calories_from_met (Fin 3.8) (Fin 30) (Fin 75)) (Fin 0)"
proof -
  have h: "(0::real) \<le> 3.8 \<and> (3.8::real) \<le> 10 ^ 100 \<and> (0::real) \<le> 75 \<and> (75::real) \<le> 10 ^ 100 \<and>
   (0::real) \<le> 30" by simp
  from calories_nonneg_bounded [OF h] h show ?thesis by blast
qed

text \<open>
  The claim as it was stated, with no condition on \<open>met\<close> and \<open>weight_kg\<close>, fails on a
  negative weight: \<open>met = 8\<close>, \<open>minutes = 30 \<ge> 0\<close> and \<open>weight_kg = -75\<close> give
  \<open>-315\<close> kcal.
\<close>

theorem calories_negative_counterexample:
  "f_ge (Fin 30) (Fin 0) \<and>
   calories_from_met (Fin 8) (Fin 30) (Fin (- 75)) = Fin (- 315) \<and>
   \<not> f_ge (calories_from_met (Fin 8) (Fin 30) (Fin (- 75))) (Fin 0)"
  by (simp add: calories_from_met_def py_max_def f_gt_def f_ge_def)

text \<open>
  C8. On numbers \<open>estimate_life_expectancy_gain\<close> is monotone non-decreasing on
  \<open>(0, 1500]\<close>: for every \<open>0 < w1 \<le> w2 \<le> 1500\<close>, \<open>gain(w1) \<le> gain(w2)\<close>; and it
  returns exactly 6.7 for every number \<open>w \<ge> 1500\<close>. (A non-finite input is not on the
  curve: the function returns 0 for it.)
\<close>

theorem life_gain_monotone_saturating:
  "(0 < w1 \<and> w1 \<le> w2 \<and> w2 \<le> 1500 \<longrightarrow>
      f_le (estimate_life_expectancy_gain (Fin w1)) (estimate_life_expectancy_gain (Fin w2))) \<and>
   (1500 \<le> w \<longrightarrow> estimate_life_expectancy_gain (Fin w) = Fin 6.7)"
  by (simp add: gain_monotone_fin gain_saturated_fin)

theorem life_gain_monotone_saturating_witness:
  "(0::real) < 100 \<and> (100::real) \<le> 200 \<and> (200::real) \<le> 1500 \<and>
   f_le (estimate_life_expectancy_gain (Fin 100)) (estimate_life_expectancy_gain (Fin 200)) \<and>
   (1500::real) \<le> 2000 \<and> estimate_life_expectancy_gain (Fin 2000) = Fin 6.7"
  using life_gain_monotone_saturating [of 100 200 2000] by simp




end
